theory Spec2Isabelle
  imports Main "HOL-Library.AList"
begin

section \<open>Strings\<close>

text \<open>
  Python \<^verbatim>\<open>str\<close> values are modelled as \<^typ>\<open>string\<close>, one \<^typ>\<open>char\<close> per code point
  (code points below 256).
\<close>

definition newline :: char where
  "newline = CHR 0x0A"

text \<open>\<^verbatim>\<open>sub in s\<close> and \<^verbatim>\<open>s.startswith(pre)\<close>.\<close>

fun startswith :: "string \<Rightarrow> string \<Rightarrow> bool" where
  "startswith s [] = True"
| "startswith [] (p # ps) = False"
| "startswith (c # cs) (p # ps) = (c = p \<and> startswith cs ps)"

fun contains :: "string \<Rightarrow> string \<Rightarrow> bool" where
  "contains sub [] = (sub = [])"
| "contains sub (c # cs) = (startswith (c # cs) sub \<or> contains sub cs)"

text \<open>\<^verbatim>\<open>s.split(sep)\<close> for a one-character separator: always at least one field.\<close>

fun split_on :: "char \<Rightarrow> string \<Rightarrow> string list" where
  "split_on sep [] = [[]]"
| "split_on sep (c # cs) =
     (if c = sep then [] # split_on sep cs
      else (case split_on sep cs of
              [] \<Rightarrow> [[c]]
            | w # ws \<Rightarrow> (c # w) # ws))"

text \<open>
  \<^verbatim>\<open>str.isspace\<close> on the code points below 256: TAB, LF, VT, FF, CR, FS, GS, RS, US,
  SPACE, NEL and NBSP.
\<close>

definition isspace :: "char \<Rightarrow> bool" where
  "isspace c = ((of_char c :: nat) \<in> {9, 10, 11, 12, 13, 28, 29, 30, 31, 32, 133, 160})"

text \<open>
  \<^verbatim>\<open>s.split()\<close> with no argument: the maximal runs of non-whitespace characters. The
  first argument of \<open>split_acc\<close> is the word being read, reversed.
\<close>

fun split_acc :: "string \<Rightarrow> string \<Rightarrow> string list" where
  "split_acc w [] = (if w = [] then [] else [rev w])"
| "split_acc w (c # cs) =
     (if isspace c then (if w = [] then split_acc [] cs else rev w # split_acc [] cs)
      else split_acc (c # w) cs)"

definition split_ws :: "string \<Rightarrow> string list" where
  "split_ws s = split_acc [] s"

text \<open>\<^verbatim>\<open>s.strip()\<close>.\<close>

definition strip :: "string \<Rightarrow> string" where
  "strip s = rev (dropWhile isspace (rev (dropWhile isspace s)))"

text \<open>\<^verbatim>\<open>str(n)\<close> for a non-negative integer, and for any integer.\<close>

definition digit_char :: "nat \<Rightarrow> char" where
  "digit_char d = char_of (48 + d)"

function str_nat :: "nat \<Rightarrow> string" where
  "str_nat n = (if n < 10 then [digit_char n] else str_nat (n div 10) @ [digit_char (n mod 10)])"
  by pat_completeness auto
termination
  by (relation "measure id") auto

declare str_nat.simps [simp del]

definition str_int :: "int \<Rightarrow> string" where
  "str_int i = (if i < 0 then CHR ''-'' # str_nat (nat (- i)) else str_nat (nat i))"

text \<open>\<^verbatim>\<open>sep.join(xs)\<close>.\<close>

fun join :: "string \<Rightarrow> string list \<Rightarrow> string" where
  "join sep [] = []"
| "join sep [x] = x"
| "join sep (x # y # ys) = x @ sep @ join sep (y # ys)"

section \<open>Paths (\<^verbatim>\<open>pathlib.PurePosixPath\<close>)\<close>

text \<open>
  A path is its root (\<^verbatim>\<open>""\<close>, \<^verbatim>\<open>"/"\<close> or \<^verbatim>\<open>"//"\<close>) and its components. Parsing a string
  drops empty components and \<^verbatim>\<open>"."\<close> components and keeps \<^verbatim>\<open>".."\<close>; exactly two leading
  slashes are kept as the root \<^verbatim>\<open>"//"\<close>.
\<close>

datatype path = Path (root: string) (parts: "string list")

definition root_of :: "string \<Rightarrow> string" where
  "root_of s =
     (if startswith s ''//'' \<and> \<not> startswith s ''///'' then ''//''
      else if startswith s ''/'' then ''/''
      else '''')"

definition parse_path :: "string \<Rightarrow> path" where
  "parse_path s =
     Path (root_of s) (filter (\<lambda>p. p \<noteq> [] \<and> p \<noteq> ''.'') (split_on CHR ''/'' s))"

text \<open>The operator \<^verbatim>\<open>p / s\<close> with a string on the right: an absolute \<open>s\<close> replaces \<open>p\<close>.\<close>

definition joinpath :: "path \<Rightarrow> string \<Rightarrow> path" where
  "joinpath p s =
     (let q = parse_path s
      in if root q \<noteq> [] then q else Path (root p) (parts p @ parts q))"

definition str_path :: "path \<Rightarrow> string" where
  "str_path p = (if root p = [] \<and> parts p = [] then ''.'' else root p @ join ''/'' (parts p))"

section \<open>The file system\<close>

text \<open>
  A flat name space from paths to nodes. The directory hierarchy and the permissions are
  not modelled: every parent directory is taken to exist and to be writable. A symbolic
  link holds the path it points at.
\<close>

datatype node = Dir | File | Symlink path

type_synonym fsys = "path \<Rightarrow> node option"

text \<open>
  \<^verbatim>\<open>os.stat\<close> follows symbolic links, at most \<open>MAXSYMLINKS\<close> of them; past that the
  kernel answers \<^verbatim>\<open>ELOOP\<close>. The result is the node reached, if any.
\<close>

definition MAXSYMLINKS :: nat where
  "MAXSYMLINKS = 40"

fun stat_upto :: "nat \<Rightarrow> fsys \<Rightarrow> path \<Rightarrow> node option" where
  "stat_upto 0 fs p =
     (case fs p of None \<Rightarrow> None | Some (Symlink t) \<Rightarrow> None | Some n \<Rightarrow> Some n)"
| "stat_upto (Suc k) fs p =
     (case fs p of None \<Rightarrow> None | Some (Symlink t) \<Rightarrow> stat_upto k fs t | Some n \<Rightarrow> Some n)"

definition stat :: "fsys \<Rightarrow> path \<Rightarrow> node option" where
  "stat fs p = stat_upto MAXSYMLINKS fs p"

text \<open>
  \<^verbatim>\<open>Path.exists()\<close> and \<^verbatim>\<open>Path.is_dir()\<close>: both follow symbolic links and answer
  \<^verbatim>\<open>False\<close> when \<^verbatim>\<open>os.stat\<close> fails, so a dangling link does not exist.
\<close>

definition path_exists :: "fsys \<Rightarrow> path \<Rightarrow> bool" where
  "path_exists fs p = (stat fs p \<noteq> None)"

definition is_dir :: "fsys \<Rightarrow> path \<Rightarrow> bool" where
  "is_dir fs p = (stat fs p = Some Dir)"

text \<open>A dangling link: a symbolic link whose target does not exist.\<close>

definition dangling :: "fsys \<Rightarrow> path \<Rightarrow> bool" where
  "dangling fs p = ((case fs p of Some (Symlink t) \<Rightarrow> True | _ \<Rightarrow> False) \<and> \<not> path_exists fs p)"

section \<open>Exceptions\<close>

datatype exn =
    FileExistsError string
  | FileNotFoundError string
  | IsADirectoryError string
  | CalledProcessError "string list" int
  | IndexError string
  | AttributeError string
  | OSError string

text \<open>\<^verbatim>\<open>str(e)\<close>. \<open>py_repr\<close> quotes a string the way \<^verbatim>\<open>repr\<close> does for plain text.\<close>

definition py_repr :: "string \<Rightarrow> string" where
  "py_repr s = CHR 0x27 # s @ [CHR 0x27]"

fun str_exn :: "exn \<Rightarrow> string" where
  "str_exn (FileExistsError m) = ''[Errno 17] File exists: '' @ m"
| "str_exn (FileNotFoundError m) = ''[Errno 2] No such file or directory: '' @ m"
| "str_exn (IsADirectoryError m) = ''[Errno 21] Is a directory: '' @ m"
| "str_exn (CalledProcessError cmd rc) =
     ''Command '' @ py_repr (''['' @ join '', '' (map py_repr cmd) @ '']'') @
     (if rc < 0 then '' died with signal '' @ str_int (- rc) @ ''.''
      else '' returned non-zero exit status '' @ str_int rc @ ''.'')"
| "str_exn (IndexError m) = m"
| "str_exn (AttributeError m) = m"
| "str_exn (OSError m) = m"

text \<open>
  \<^verbatim>\<open>Path.unlink()\<close> removes a file or a symbolic link (the link itself, not its target)
  and fails on a missing path and on a directory. \<^verbatim>\<open>Path.symlink_to(target)\<close> fails when
  the path is occupied by anything, a dangling link included. A failure leaves the file
  system as it was.
\<close>

definition unlink :: "fsys \<Rightarrow> path \<Rightarrow> exn + fsys" where
  "unlink fs p =
     (case fs p of
        None \<Rightarrow> Inl (FileNotFoundError (py_repr (str_path p)))
      | Some Dir \<Rightarrow> Inl (IsADirectoryError (py_repr (str_path p)))
      | Some n \<Rightarrow> Inr (fs(p := None)))"

definition symlink_to :: "fsys \<Rightarrow> path \<Rightarrow> path \<Rightarrow> exn + fsys" where
  "symlink_to fs p target =
     (case fs p of
        None \<Rightarrow> Inr (fs(p \<mapsto> Symlink target))
      | Some n \<Rightarrow>
          Inl (FileExistsError (py_repr (str_path target) @ '' -> '' @ py_repr (str_path p))))"

text \<open>
  \<^verbatim>\<open>Path.mkdir(parents=True, exist_ok=True)\<close>: creates the directory, accepts an existing
  directory (also through a link) and fails on anything else.
\<close>

definition mkdir :: "fsys \<Rightarrow> path \<Rightarrow> exn + fsys" where
  "mkdir fs p =
     (case fs p of
        None \<Rightarrow> Inr (fs(p \<mapsto> Dir))
      | Some n \<Rightarrow> if is_dir fs p then Inr fs else Inl (FileExistsError (py_repr (str_path p))))"

section \<open>The environment\<close>

text \<open>
  \<^verbatim>\<open>subprocess.run\<close> either returns a completed process (return code, standard output,
  standard error) or raises. The external program may change the file system, so the
  environment maps the command line and the file system before to the result and the
  file system after.
\<close>

datatype run_result = Returned int string string | Raised exn

type_synonym env = "string list \<Rightarrow> fsys \<Rightarrow> run_result \<times> fsys"

section \<open>The application state\<close>

text \<open>
  The share dictionaries map a share name to an inner dictionary \<^verbatim>\<open>{"mounted": b}\<close>.
  Inner dictionaries are objects: \<^verbatim>\<open>self.default_shares.copy()\<close> is a shallow copy whose
  values are the very objects of \<^verbatim>\<open>self.default_shares\<close>. A dictionary is therefore an
  association list (in insertion order) from names to addresses, and \<open>heap\<close> holds the
  \<^verbatim>\<open>"mounted"\<close> entry of the object at each address. \<open>check_vars\<close> holds the value of
  the \<^verbatim>\<open>BooleanVar\<close> of each check box. The calls of \<^verbatim>\<open>messagebox\<close> are logged in
  \<open>dialogs\<close> and the command lines given to \<^verbatim>\<open>subprocess.run\<close> in \<open>commands\<close>; the
  other widgets are not modelled.
\<close>

type_synonym addr = nat

type_synonym registry = "(string \<times> addr) list"

datatype dialog = ShowInfo string string | ShowWarning string string | ShowError string string

record app =
  server :: string
  default_shares :: registry
  shares :: registry
  check_vars :: "(string \<times> bool) list"
  heap :: "addr \<Rightarrow> bool"
  next_addr :: addr
  smb_links :: path
  credentials_dir :: path
  uid :: nat
  files :: fsys
  dialogs :: "dialog list"
  commands :: "string list list"

definition show_dialog :: "dialog \<Rightarrow> app \<Rightarrow> app" where
  "show_dialog d st = st\<lparr>dialogs := dialogs st @ [d]\<rparr>"

text \<open>The state once a command has been run and has left the file system \<open>fs\<close>.\<close>

definition ran :: "string list \<Rightarrow> fsys \<Rightarrow> app \<Rightarrow> app" where
  "ran cmd fs st = st\<lparr>files := fs, commands := commands st @ [cmd]\<rparr>"

text \<open>The value of \<^verbatim>\<open>self.shares[share]["mounted"]\<close>.\<close>

definition mounted :: "app \<Rightarrow> string \<Rightarrow> bool option" where
  "mounted st share = map_option (heap st) (map_of (shares st) share)"

text \<open>\<^verbatim>\<open>__init__\<close>, for a given home directory and user id.\<close>

definition init :: "path \<Rightarrow> nat \<Rightarrow> fsys \<Rightarrow> app" where
  "init home u fs0 =
     \<lparr> server = ''lagrange'',
       default_shares = [(''photo'', 0), (''music'', 1), (''video'', 2), (''commun'', 3)],
       shares = [],
       check_vars = [],
       heap = (\<lambda>a. False),
       next_addr = 4,
       smb_links = joinpath home ''SMBLinks'',
       credentials_dir = joinpath home ''.credentials'',
       uid = u,
       files = fs0,
       dialogs = [],
       commands = [] \<rparr>"

section \<open>Share discovery\<close>

text \<open>
  The loop of \<^verbatim>\<open>detect_shares\<close> over the lines of the listing. Each assignment
  \<^verbatim>\<open>shares[share_name] = {"mounted": False}\<close> allocates a new inner dictionary.
  \<^verbatim>\<open>line.split()[0]\<close> raises \<^verbatim>\<open>IndexError\<close> on an empty list.
\<close>

fun detect_lines ::
  "string list \<Rightarrow> registry \<Rightarrow> (addr \<Rightarrow> bool) \<Rightarrow> addr \<Rightarrow> exn + (registry \<times> (addr \<Rightarrow> bool) \<times> addr)"
where
  "detect_lines [] sh h n = Inr (sh, h, n)"
| "detect_lines (line # ls) sh h n =
     (if contains ''Disk'' line \<and> \<not> contains ''$'' line then
        (case split_ws line of
           [] \<Rightarrow> Inl (IndexError ''list index out of range'')
         | w # ws \<Rightarrow> detect_lines ls (AList.update (strip w) n sh) (h(n := False)) (Suc n))
      else detect_lines ls sh h n)"

text \<open>
  The body of the \<^verbatim>\<open>try\<close> block: the value is the exception raised or the dictionary
  built. The objects allocated by a loop that raises are unreachable and are dropped.
\<close>

definition detect_shares_try :: "env \<Rightarrow> app \<Rightarrow> (exn + registry) \<times> app" where
  "detect_shares_try run st =
     (case run [''smbclient'', ''-L'', server st, ''-N''] (files st) of
        (Raised e, fs1) \<Rightarrow> (Inl e, ran [''smbclient'', ''-L'', server st, ''-N''] fs1 st)
      | (Returned rc out err, fs1) \<Rightarrow>
          (let st1 = ran [''smbclient'', ''-L'', server st, ''-N''] fs1 st in
           if rc = 0 then
             (case detect_lines (split_on newline out) [] (heap st1) (next_addr st1) of
                Inl e \<Rightarrow> (Inl e, st1)
              | Inr (sh, h, n) \<Rightarrow>
                  (let st2 = st1\<lparr>heap := h, next_addr := n\<rparr> in
                   if sh = [] then
                     (Inr (default_shares st2),
                      show_dialog (ShowWarning ''Warning''
                        (''No shares found on '' @ server st2 @ [newline] @
                         ''Using default shares list'')) st2)
                   else (Inr sh, st2)))
           else
             (Inr (default_shares st1),
              show_dialog (ShowError ''Error''
                (''Unable to list shares on '' @ server st1 @ '':'' @ [newline] @ err @
                 [newline] @ ''Using default shares list'')) st1)))"

definition detect_shares :: "env \<Rightarrow> app \<Rightarrow> registry \<times> app" where
  "detect_shares run st =
     (case detect_shares_try run st of
        (Inr sh, st1) \<Rightarrow> (sh, st1)
      | (Inl e, st1) \<Rightarrow>
          (default_shares st1,
           show_dialog (ShowError ''Error''
             (''Error while detecting shares: '' @ str_exn e @ [newline] @
              ''Using default shares list'')) st1))"

section \<open>Mounting and unmounting\<close>

text \<open>The mount point that \<^verbatim>\<open>mount_share\<close> computes, and the path of the link.\<close>

definition endpoint :: "app \<Rightarrow> string \<Rightarrow> path" where
  "endpoint st share =
     parse_path (''/run/user/'' @ str_nat (uid st) @ ''/gvfs/smb-share:server='' @ server st @
                 '',share='' @ share)"

definition link_path :: "app \<Rightarrow> string \<Rightarrow> path" where
  "link_path st share = joinpath (smb_links st) share"

definition smb_url :: "app \<Rightarrow> string \<Rightarrow> string" where
  "smb_url st share = ''smb://'' @ server st @ ''/'' @ share"

text \<open>
  The replacement of the link inside \<^verbatim>\<open>mount_share\<close>: the statements between the test
  of the return code and the success dialog. The result is the exception raised, if any,
  and the file system at that point.
\<close>

definition replace_link :: "fsys \<Rightarrow> path \<Rightarrow> path \<Rightarrow> exn option \<times> fsys" where
  "replace_link fs lnk ep =
     (if path_exists fs ep then
        (case (if path_exists fs lnk then unlink fs lnk else Inr fs) of
           Inl e \<Rightarrow> (Some e, fs)
         | Inr fs1 \<Rightarrow>
             (case symlink_to fs1 lnk ep of
                Inl e \<Rightarrow> (Some e, fs1)
              | Inr fs2 \<Rightarrow> (None, fs2)))
      else (None, fs))"

definition mount_cmd :: "app \<Rightarrow> string \<Rightarrow> string list" where
  "mount_cmd st share = [''gio'', ''mount'', smb_url st share]"

definition mount_share :: "env \<Rightarrow> app \<Rightarrow> string \<Rightarrow> bool \<times> app" where
  "mount_share run st share =
     (case run (mount_cmd st share) (files st) of
        (Raised e, fs1) \<Rightarrow>
          (False, show_dialog (ShowError ''Error'' (str_exn e)) (ran (mount_cmd st share) fs1 st))
      | (Returned rc out err, fs1) \<Rightarrow>
          (let st1 = ran (mount_cmd st share) fs1 st in
           if rc = 0 then
             (case replace_link fs1 (link_path st share) (endpoint st share) of
                (Some e, fs2) \<Rightarrow>
                  (False, show_dialog (ShowError ''Error'' (str_exn e)) (st1\<lparr>files := fs2\<rparr>))
              | (None, fs2) \<Rightarrow>
                  (True,
                   show_dialog (ShowInfo ''Success''
                     (''Share '' @ share @ '' mounted successfully in '' @ str_path (smb_links st)))
                     (st1\<lparr>files := fs2\<rparr>)))
           else
             (False,
              show_dialog (ShowError ''Error'' (''Error mounting '' @ share @ [newline] @ err)) st1)))"




text \<open>\<^verbatim>\<open>check_mounted_shares\<close>: one write per entry of \<^verbatim>\<open>self.shares\<close>, in order.\<close>

fun check_entries :: "fsys \<Rightarrow> path \<Rightarrow> registry \<Rightarrow> (addr \<Rightarrow> bool) \<Rightarrow> (addr \<Rightarrow> bool)" where
  "check_entries fs links [] h = h"
| "check_entries fs links ((share, a) # es) h =
     check_entries fs links es (h(a := path_exists fs (joinpath links share)))"

definition check_mounted_shares :: "app \<Rightarrow> app" where
  "check_mounted_shares st =
     st\<lparr>heap := check_entries (files st) (smb_links st) (shares st) (heap st)\<rparr>"

text \<open>
  The loops of \<^verbatim>\<open>mount_selected\<close> and \<^verbatim>\<open>unmount_selected\<close> over
  \<^verbatim>\<open>self.check_vars.items()\<close>. The value returned by each call is dropped, and both
  methods return \<^verbatim>\<open>None\<close>.
\<close>

fun mount_each :: "env \<Rightarrow> app \<Rightarrow> (string \<times> bool) list \<Rightarrow> app" where
  "mount_each run st [] = st"
| "mount_each run st ((share, var) # vs) =
     mount_each run (if var then snd (mount_share run st share) else st) vs"

definition mount_selected :: "env \<Rightarrow> app \<Rightarrow> app" where
  "mount_selected run st = check_mounted_shares (mount_each run st (check_vars st))"



section \<open>Connecting and refreshing\<close>

text \<open>
  The methods that the class defines. \<^verbatim>\<open>create_widgets\<close> reads four bound methods for
  its buttons, in this order: \<^verbatim>\<open>refresh_shares\<close>, then (after the check boxes)
  \<^verbatim>\<open>mount_selected\<close>, \<^verbatim>\<open>unmount_selected\<close> and \<^verbatim>\<open>unmount_all\<close>. Reading an attribute
  that the object does not have raises \<^verbatim>\<open>AttributeError\<close>.
\<close>

definition class_methods :: "string list" where
  "class_methods =
     [''__init__'', ''create_server_form'', ''connect_to_server'', ''setup_directories'',
      ''detect_shares'', ''create_widgets'', ''refresh_shares'', ''mount_selected'',
      ''mount_share'', ''unmount_selected'', ''unmount_share'', ''check_mounted_shares'']"

definition getattr :: "string \<Rightarrow> exn option" where
  "getattr name =
     (if name \<in> set class_methods then None
      else Some (AttributeError
        (py_repr ''SMBMounter'' @ '' object has no attribute '' @ py_repr name)))"

fun getattrs :: "string list \<Rightarrow> exn option" where
  "getattrs [] = None"
| "getattrs (name # names) = (case getattr name of Some e \<Rightarrow> Some e | None \<Rightarrow> getattrs names)"

definition create_widgets :: "app \<Rightarrow> exn option \<times> app" where
  "create_widgets st =
     (case getattr ''refresh_shares'' of
        Some e \<Rightarrow> (Some e, st)
      | None \<Rightarrow>
          (let st1 = st\<lparr>check_vars := map (\<lambda>(share, a). (share, False)) (shares st)\<rparr>
           in (getattrs [''mount_selected'', ''unmount_selected'', ''unmount_all''], st1)))"

text \<open>\<^verbatim>\<open>setup_directories\<close>; the mode set by \<^verbatim>\<open>chmod\<close> is not modelled.\<close>

definition setup_directories :: "app \<Rightarrow> exn option \<times> app" where
  "setup_directories st =
     (case mkdir (files st) (smb_links st) of
        Inl e \<Rightarrow> (Some e, st)
      | Inr fs1 \<Rightarrow>
          (case mkdir fs1 (credentials_dir st) of
             Inl e \<Rightarrow> (Some e, st\<lparr>files := fs1\<rparr>)
           | Inr fs2 \<Rightarrow> (None, st\<lparr>files := fs2\<rparr>)))"

text \<open>
  \<^verbatim>\<open>connect_to_server\<close>, for the text of the entry field. Nothing catches an exception
  here: it ends the method and leaves the state as it is at that point.
\<close>

definition connect_to_server :: "env \<Rightarrow> string \<Rightarrow> app \<Rightarrow> exn option \<times> app" where
  "connect_to_server run entry st =
     (let new_server = strip entry in
      if new_server = [] then
        (None, show_dialog (ShowError ''Error'' ''Please enter a server name'') st)
      else
        (case detect_shares run (st\<lparr>server := new_server\<rparr>) of
           (sh, st1) \<Rightarrow>
             (case setup_directories (st1\<lparr>shares := sh\<rparr>) of
                (Some e, st2) \<Rightarrow> (Some e, st2)
              | (None, st2) \<Rightarrow>
                  (case create_widgets st2 of
                     (Some e, st3) \<Rightarrow> (Some e, st3)
                   | (None, st3) \<Rightarrow> (None, check_mounted_shares st3)))))"

text \<open>\<^verbatim>\<open>refresh_shares\<close>, with its loop that restores the saved states.\<close>

definition mounted_states :: "app \<Rightarrow> (string \<times> bool) list" where
  "mounted_states st =
     map (\<lambda>(share, a). (share, heap st a))
       (filter (\<lambda>(share, a). share \<in> fst ` set (check_vars st)) (shares st))"

fun restore_states :: "(string \<times> bool) list \<Rightarrow> (string \<times> bool) list \<Rightarrow> (string \<times> bool) list" where
  "restore_states [] cv = cv"
| "restore_states ((share, m) # ms) cv =
     restore_states ms (if share \<in> fst ` set cv then AList.update share m cv else cv)"

definition refresh_shares :: "env \<Rightarrow> app \<Rightarrow> exn option \<times> app" where
  "refresh_shares run st =
     (let saved = mounted_states st in
      case detect_shares run st of
        (sh, st1) \<Rightarrow>
          (case create_widgets (st1\<lparr>shares := sh\<rparr>) of
             (Some e, st2) \<Rightarrow> (Some e, st2)
           | (None, st2) \<Rightarrow> (None, st2\<lparr>check_vars := restore_states saved (check_vars st2)\<rparr>)))"

section \<open>Notions used by the properties\<close>

text \<open>
  The first maximal run of non-whitespace characters of a line, and the test that
  \<^verbatim>\<open>detect_shares\<close> applies to a line: the substring \<^verbatim>\<open>Disk\<close> occurs somewhere in it and
  the character \<^verbatim>\<open>$\<close> occurs nowhere in it.
\<close>

definition first_word :: "string \<Rightarrow> string" where
  "first_word s = takeWhile (\<lambda>c. \<not> isspace c) (dropWhile isspace s)"

definition listed :: "string \<Rightarrow> bool" where
  "listed line = (contains ''Disk'' line \<and> \<not> contains ''$'' line)"

text \<open>
  The selection as the specification words it, for comparison with the code: a listing
  line is an entry made of a name followed by a type marker; it is selected when the type
  marker is \<^verbatim>\<open>Disk\<close> and the name does not end in \<^verbatim>\<open>$\<close>.
\<close>

definition spec_disk_share :: "string \<Rightarrow> string option" where
  "spec_disk_share line =
     (case split_ws line of
        name # ty # rest \<Rightarrow> if ty = ''Disk'' \<and> last name \<noteq> CHR ''$'' then Some name else None
      | _ \<Rightarrow> None)"

definition spec_discovered :: "string list \<Rightarrow> string list" where
  "spec_discovered lines = List.map_filter spec_disk_share lines"

section \<open>Concrete inputs\<close>

text \<open>
  A home directory, a session started on an empty file system, and a listing command that
  succeeds and prints the given lines.
\<close>

definition home_ex :: path where
  "home_ex = Path ''/'' [''home'', ''u'']"

definition listing :: "string list \<Rightarrow> env" where
  "listing lines cmd fs = (Returned 0 (join [newline] lines) [], fs)"

definition st_ex :: app where
  "st_ex = init home_ex 1000 (\<lambda>p. None)"

definition lines_ex :: "string list" where
  "lines_ex = [''photo Disk'', ''IPC$ IPC'', ''music Disk'']"

definition lines_budget :: "string list" where
  "lines_budget = [''budget Disk costs in $'', ''photo Disk'']"

text \<open>A command that cannot be run, and a command that exits with a given status and standard error.\<close>

definition raising :: "exn \<Rightarrow> env" where
  "raising e cmd fs = (Raised e, fs)"

definition exiting :: "int \<Rightarrow> string \<Rightarrow> env" where
  "exiting rc err cmd fs = (Returned rc [] err, fs)"

definition no_smbclient :: exn where
  "no_smbclient = FileNotFoundError (py_repr ''smbclient'')"

text \<open>
  What an unmount request may do to the file system: remove entries, and nothing else.
\<close>

definition only_removes :: "fsys \<Rightarrow> fsys \<Rightarrow> bool" where
  "only_removes fs fs' = (\<forall>p. fs' p = None \<or> fs' p = fs p)"

text \<open>The file system once \<^verbatim>\<open>unmount_share\<close> has passed its link removal.\<close>

definition link_removed :: "app \<Rightarrow> string \<Rightarrow> fsys" where
  "link_removed st share =
     (if path_exists (files st) (link_path st share)
      then (files st)(link_path st share := None) else files st)"

text \<open>
  A session on a given file system, and file systems in which the link path of \<^verbatim>\<open>photo\<close>
  holds a directory, a link to the mount point of \<^verbatim>\<open>photo\<close> on another server (which is
  not mounted), or a link to the mount point of the share on this server (which is).
\<close>

definition session :: "fsys \<Rightarrow> app" where
  "session fs = init home_ex 1000 fs"


definition old_endpoint :: path where
  "old_endpoint = endpoint (st_ex\<lparr>server := ''euler''\<rparr>) ''photo''"

definition fs_stale :: fsys where
  "fs_stale = (\<lambda>p. None)(link_path st_ex ''photo'' \<mapsto> Symlink old_endpoint)"


text \<open>
  A mount request that succeeds and makes the mount point appear; the session once
  \<^verbatim>\<open>connect_to_server\<close> has run on a listing of \<^verbatim>\<open>photo\<close> and \<^verbatim>\<open>music\<close>; and file
  systems in which the link of \<^verbatim>\<open>photo\<close> points at the mount point of this server while
  the share is not mounted, the link points at an existing directory elsewhere, or only the
  mount point exists.
\<close>

definition mounting :: "path \<Rightarrow> env" where
  "mounting ep cmd fs = (Returned 0 [] [], fs(ep \<mapsto> Dir))"


definition fs_unmounted :: fsys where
  "fs_unmounted = (\<lambda>p. None)(link_path st_ex ''photo'' \<mapsto> Symlink (endpoint st_ex ''photo''))"




definition ep_photo :: path where
  "ep_photo = endpoint st_ex ''photo''"

definition lnk_photo :: path where
  "lnk_photo = link_path st_ex ''photo''"

text \<open>The exception that \<^verbatim>\<open>symlink_to\<close> raises in \<^verbatim>\<open>mount_share\<close> on an occupied link path.\<close>

definition link_exists_error :: "app \<Rightarrow> string \<Rightarrow> exn" where
  "link_exists_error st share =
     FileExistsError (py_repr (str_path (endpoint st share)) @ '' -> '' @
                      py_repr (str_path (link_path st share)))"

text \<open>The text from which \<^verbatim>\<open>mount_share\<close> builds the mount point.\<close>

definition endpoint_text :: "nat \<Rightarrow> string \<Rightarrow> string \<Rightarrow> string" where
  "endpoint_text u srv share =
     ''/run/user/'' @ str_nat u @ ''/gvfs/smb-share:server='' @ srv @ '',share='' @ share"


definition select :: "string \<Rightarrow> app \<Rightarrow> app" where
  "select share st = st\<lparr>check_vars := AList.update share True (check_vars st)\<rparr>"




text \<open>
  A session on a server that lists the shares \<^verbatim>\<open>A\<close> and \<^verbatim>\<open>B\<close>, once \<^verbatim>\<open>A\<close> has been ticked
  and mounted: the registry is \<^verbatim>\<open>{A: true, B: false}\<close>.
\<close>

definition st_ab :: app where
  "st_ab = mount_selected (mounting (endpoint st_ex ''A''))
     (select ''A'' (snd (connect_to_server (listing [''A Disk'', ''B Disk'']) ''lagrange''
        (session (\<lambda>p. None)))))"


section \<open>Share discovery: the parser\<close>

lemma split_acc_word:
  "w \<noteq> [] \<Longrightarrow> split_acc w s =
     (rev w @ takeWhile (\<lambda>c. \<not> isspace c) s) # split_acc [] (dropWhile (\<lambda>c. \<not> isspace c) s)"
  by (induction s arbitrary: w) auto

lemma split_acc_Nil:
  "split_acc [] s =
     (case dropWhile isspace s of
        [] \<Rightarrow> []
      | c # cs \<Rightarrow> takeWhile (\<lambda>c. \<not> isspace c) (c # cs) # split_acc [] (dropWhile (\<lambda>c. \<not> isspace c) cs))"
  by (induction s) (auto simp: split_acc_word)

lemma split_ws_first:
  "dropWhile isspace s \<noteq> [] \<Longrightarrow> \<exists>ws. split_ws s = first_word s # ws"
  unfolding split_ws_def first_word_def
  by (subst split_acc_Nil) (auto split: list.splits)

lemma contains_nonspace:
  "contains (c # p) s \<Longrightarrow> \<not> isspace c \<Longrightarrow> dropWhile isspace s \<noteq> []"
  by (induction s) auto

lemma listed_split_ws: "listed line \<Longrightarrow> \<exists>ws. split_ws line = first_word line # ws"
  unfolding listed_def
  by (rule split_ws_first, rule contains_nonspace [of "CHR ''D''" "''isk''"]) (simp_all add: isspace_def)

lemma dropWhile_none: "\<forall>x \<in> set xs. \<not> P x \<Longrightarrow> dropWhile P xs = xs"
  by (cases xs) auto

lemma strip_no_space: "\<forall>c \<in> set w. \<not> isspace c \<Longrightarrow> strip w = w"
  by (simp add: strip_def dropWhile_none)

lemma strip_first_word: "strip (first_word s) = first_word s"
  by (rule strip_no_space) (auto simp: first_word_def dest: set_takeWhileD)


lemma update_cells:
  "snd ` set (AList.update k v al) \<subseteq> insert v (snd ` set al)"
  by (induction al) auto

lemma update_distinct_cells:
  "v \<notin> snd ` set al \<Longrightarrow> distinct (map snd al) \<Longrightarrow> distinct (map snd (AList.update k v al))"
proof (induction al)
  case Nil
  then show ?case by simp
next
  case (Cons p al)
  then show ?case using update_cells [of k v al] by (cases p) (auto simp: image_iff)
qed


lemma detect_lines_Cons:
  "detect_lines (line # ls) sh h n =
     (if listed line then
        (case split_ws line of
           [] \<Rightarrow> Inl (IndexError ''list index out of range'')
         | w # ws \<Rightarrow> detect_lines ls (AList.update (strip w) n sh) (h(n := False)) (Suc n))
      else detect_lines ls sh h n)"
  by (simp add: listed_def)

lemma detect_lines_step:
  "listed line \<Longrightarrow> detect_lines (line # ls) sh h n =
      detect_lines ls (AList.update (first_word line) n sh) (h(n := False)) (Suc n)"
  using listed_split_ws [of line] by (auto simp: detect_lines_Cons strip_first_word simp del: detect_lines.simps)


lemma detect_lines_skip:
  "\<not> listed line \<Longrightarrow> detect_lines (line # ls) sh h n = detect_lines ls sh h n"
  by (simp only: detect_lines_Cons if_False)

lemma detect_lines_names:
  "detect_lines ls sh h n = Inr (sh', h', n') \<Longrightarrow>
     fst ` set sh' = fst ` set sh \<union> first_word ` set (filter listed ls)"
proof (induction ls arbitrary: sh h n)
  case Nil
  then show ?case by simp
next
  case (Cons line ls)
  show ?case
  proof (cases "listed line")
    case False
    have "detect_lines ls sh h n = Inr (sh', h', n')"
      using Cons.prems detect_lines_skip [OF False, of ls sh h n] by (simp only:)
    from Cons.IH [OF this] have "fst ` set sh' = fst ` set sh \<union> first_word ` set (filter listed ls)" .
    moreover have "filter listed (line # ls) = filter listed ls" using False by simp
    ultimately show ?thesis by (simp only:)
  next
    case True
    have
      "detect_lines ls (AList.update (first_word line) n sh) (h(n := False)) (Suc n) = Inr (sh', h', n')"
      using Cons.prems detect_lines_step [OF True, of ls sh h n] by (simp only:)
    from Cons.IH [OF this] have "fst ` set sh' = ({first_word line} \<union> fst ` set sh) \<union> first_word ` set (filter listed ls)"
      by (simp only: dom_update)
    moreover have "filter listed (line # ls) = line # filter listed ls" using True by simp
    ultimately show ?thesis by (simp only: list.set image_insert) blast
  qed
qed


lemma detect_lines_total: "\<exists>sh' h' n'. detect_lines ls sh h n = Inr (sh', h', n')"
proof (induction ls arbitrary: sh h n)
  case Nil
  then show ?case by simp
next
  case (Cons line ls)
  show ?case
  proof (cases "listed line")
    case False
    show ?thesis
      using Cons [of sh h n] detect_lines_skip [OF False, of ls sh h n] by (simp only:)
  next
    case True
    show ?thesis
      using Cons [of "AList.update (first_word line) n sh" "h(n := False)" "Suc n"]
        detect_lines_step [OF True, of ls sh h n] by (simp only:)
  qed
qed


lemma detect_lines_cells:
  "detect_lines ls sh h n = Inr (sh', h', n') \<Longrightarrow> snd ` set sh \<subseteq> {..<n} \<Longrightarrow>
     distinct (map snd sh) \<Longrightarrow> distinct (map snd sh') \<and> snd ` set sh' \<subseteq> {..<n'} \<and> n \<le> n'"
proof (induction ls arbitrary: sh h n)
  case Nil
  then show ?case by simp
next
  case (Cons line ls)
  show ?case
  proof (cases "listed line")
    case False
    have "detect_lines ls sh h n = Inr (sh', h', n')"
      using Cons.prems(1) detect_lines_skip [OF False, of ls sh h n] by (simp only:)
    then show ?thesis using Cons.prems(2,3) by (rule Cons.IH)
  next
    case True
    let ?sh = "AList.update (first_word line) n sh"
    have "detect_lines ls ?sh (h(n := False)) (Suc n) = Inr (sh', h', n')"
      using Cons.prems(1) detect_lines_step [OF True, of ls sh h n] by (simp only:)
    moreover have "snd ` set ?sh \<subseteq> {..<Suc n}"
    proof (rule subset_trans [OF update_cells])
      show "insert n (snd ` set sh) \<subseteq> {..<Suc n}" using Cons.prems(2) by auto
    qed
    moreover have "distinct (map snd ?sh)"
      using Cons.prems(2,3) by (intro update_distinct_cells) auto
    ultimately have "distinct (map snd sh') \<and> snd ` set sh' \<subseteq> {..<n'} \<and> Suc n \<le> n'"
      by (rule Cons.IH)
    then show ?thesis by simp
  qed
qed

lemma detect_lines_heap:
  "detect_lines ls sh h n = Inr (sh', h', n') \<Longrightarrow> a < n \<Longrightarrow> h' a = h a"
proof (induction ls arbitrary: sh h n)
  case Nil
  then show ?case by simp
next
  case (Cons line ls)
  show ?case
  proof (cases "listed line")
    case False
    have "detect_lines ls sh h n = Inr (sh', h', n')"
      using Cons.prems(1) detect_lines_skip [OF False, of ls sh h n] by (simp only:)
    then show ?thesis using Cons.prems(2) by (rule Cons.IH)
  next
    case True
    have "detect_lines ls (AList.update (first_word line) n sh) (h(n := False)) (Suc n) = Inr (sh', h', n')"
      using Cons.prems(1) detect_lines_step [OF True, of ls sh h n] by (simp only:)
    moreover have "a < Suc n" using Cons.prems(2) by simp
    ultimately have "h' a = (h(n := False)) a" by (rule Cons.IH)
    then show ?thesis using Cons.prems(2) by simp
  qed
qed

text \<open>
  Claim C2, as amended. When the listing command exits with status zero, the names that
  \<^verbatim>\<open>detect_shares\<close> returns are exactly the first words of the lines that contain the
  substring \<^verbatim>\<open>Disk\<close> and no \<^verbatim>\<open>$\<close> anywhere; when no line passes that test, they are the
  names of the default shares. The witness is the listing of the specification,
  \<^verbatim>\<open>["photo Disk", "IPC$ IPC", "music Disk"]\<close>, which yields \<^verbatim>\<open>{photo, music}\<close>.
\<close>

theorem detect_shares_names:
  assumes "run [''smbclient'', ''-L'', server st, ''-N''] (files st) = (Returned 0 out err, fs1)"
  shows "fst ` set (fst (detect_shares run st)) =
           (if filter listed (split_on newline out) = [] then fst ` set (default_shares st)
            else first_word ` set (filter listed (split_on newline out)))"
proof -
  obtain sh h n where r:
    "detect_lines (split_on newline out) [] (heap st) (next_addr st) = Inr (sh, h, n)"
    using detect_lines_total by blast
  from detect_lines_names [OF r]
  have names: "fst ` set sh = first_word ` set (filter listed (split_on newline out))" by simp
  have empty: "(sh = []) = (filter listed (split_on newline out) = [])"
    using names by (metis image_is_empty set_empty)
  show ?thesis
    using assms r names empty
    by (simp add: detect_shares_def detect_shares_try_def Let_def show_dialog_def ran_def)
qed


section \<open>Share discovery: failures\<close>

lemma detect_shares_try_raises:
  "fst (detect_shares_try run st) = Inl e \<Longrightarrow>
     \<exists>fs1. run [''smbclient'', ''-L'', server st, ''-N''] (files st) = (Raised e, fs1)"
proof -
  assume a: "fst (detect_shares_try run st) = Inl e"
  obtain r fs1 where r: "run [''smbclient'', ''-L'', server st, ''-N''] (files st) = (r, fs1)"
    by (cases "run [''smbclient'', ''-L'', server st, ''-N''] (files st)")
  show ?thesis
  proof (cases r)
    case (Raised e')
    with a r show ?thesis by (simp add: detect_shares_try_def ran_def)
  next
    case (Returned rc out err)
    obtain sh h n where d:
      "detect_lines (split_on newline out) [] (heap st) (next_addr st) = Inr (sh, h, n)"
      using detect_lines_total by blast
    with a r Returned show ?thesis
      by (simp add: detect_shares_try_def ran_def Let_def split: if_splits)
  qed
qed

text \<open>
  Claim C5, as amended. \<^verbatim>\<open>detect_shares\<close> is total: its \<^verbatim>\<open>try\<close> block sees no exception but
  the one that running the listing command raises (the parser never raises), and the handler
  turns that one into a result. When the command raises, when it exits with a non-zero
  status and when its listing selects no share, the value returned is the default share
  dictionary and nothing else; the outcome is not returned but shown to the user, in an
  error dialog carrying the exception text, an error dialog carrying the standard error of
  the command, or a warning dialog.
\<close>

theorem detect_shares_degrades:
  "(run [''smbclient'', ''-L'', server st, ''-N''] (files st) = (Raised e, fs1) \<longrightarrow>
      fst (detect_shares run st) = default_shares st \<and>
      dialogs (snd (detect_shares run st)) = dialogs st @
        [ShowError ''Error'' (''Error while detecting shares: '' @ str_exn e @ [newline] @
           ''Using default shares list'')]) \<and>
   (run [''smbclient'', ''-L'', server st, ''-N''] (files st) = (Returned rc out err, fs1) \<and> rc \<noteq> 0 \<longrightarrow>
      fst (detect_shares run st) = default_shares st \<and>
      dialogs (snd (detect_shares run st)) = dialogs st @
        [ShowError ''Error'' (''Unable to list shares on '' @ server st @ '':'' @ [newline] @ err @
           [newline] @ ''Using default shares list'')]) \<and>
   (run [''smbclient'', ''-L'', server st, ''-N''] (files st) = (Returned 0 out err, fs1) \<and>
    filter listed (split_on newline out) = [] \<longrightarrow>
      fst (detect_shares run st) = default_shares st \<and>
      dialogs (snd (detect_shares run st)) = dialogs st @
        [ShowWarning ''Warning'' (''No shares found on '' @ server st @ [newline] @
           ''Using default shares list'')]) \<and>
   (\<forall>x. fst (detect_shares_try run st) = Inl x \<longrightarrow>
      (\<exists>fs. run [''smbclient'', ''-L'', server st, ''-N''] (files st) = (Raised x, fs)))"
proof (intro conjI impI allI)
  assume "run [''smbclient'', ''-L'', server st, ''-N''] (files st) = (Raised e, fs1)"
  then show "fst (detect_shares run st) = default_shares st"
    by (simp add: detect_shares_def detect_shares_try_def show_dialog_def ran_def)
next
  assume "run [''smbclient'', ''-L'', server st, ''-N''] (files st) = (Raised e, fs1)"
  then show "dialogs (snd (detect_shares run st)) = dialogs st @
        [ShowError ''Error'' (''Error while detecting shares: '' @ str_exn e @ [newline] @
           ''Using default shares list'')]"
    by (simp add: detect_shares_def detect_shares_try_def show_dialog_def ran_def)
next
  assume "run [''smbclient'', ''-L'', server st, ''-N''] (files st) = (Returned rc out err, fs1) \<and> rc \<noteq> 0"
  then show "fst (detect_shares run st) = default_shares st"
    by (simp add: detect_shares_def detect_shares_try_def show_dialog_def ran_def)
next
  assume "run [''smbclient'', ''-L'', server st, ''-N''] (files st) = (Returned rc out err, fs1) \<and> rc \<noteq> 0"
  then show "dialogs (snd (detect_shares run st)) = dialogs st @
        [ShowError ''Error'' (''Unable to list shares on '' @ server st @ '':'' @ [newline] @ err @
           [newline] @ ''Using default shares list'')]"
    by (simp add: detect_shares_def detect_shares_try_def show_dialog_def ran_def)
next
  assume a: "run [''smbclient'', ''-L'', server st, ''-N''] (files st) = (Returned 0 out err, fs1) \<and>
    filter listed (split_on newline out) = []"
  obtain sh h n where d:
    "detect_lines (split_on newline out) [] (heap st) (next_addr st) = Inr (sh, h, n)"
    using detect_lines_total by blast
  from detect_lines_names [OF d] a have e: "sh = []" by simp
  from a d e show "fst (detect_shares run st) = default_shares st"
    by (simp add: detect_shares_def detect_shares_try_def show_dialog_def ran_def)
  from a d e show "dialogs (snd (detect_shares run st)) = dialogs st @
        [ShowWarning ''Warning'' (''No shares found on '' @ server st @ [newline] @
           ''Using default shares list'')]"
    by (simp add: detect_shares_def detect_shares_try_def show_dialog_def ran_def)
next
  fix x assume "fst (detect_shares_try run st) = Inl x"
  then show "\<exists>fs. run [''smbclient'', ''-L'', server st, ''-N''] (files st) = (Raised x, fs)"
    by (rule detect_shares_try_raises)
qed


section \<open>The file system and unmounting\<close>

lemma stat_upto_None: "fs p = None \<Longrightarrow> stat_upto k fs p = None"
  by (cases k) simp_all

lemma not_exists_None: "fs p = None \<Longrightarrow> \<not> path_exists fs p"
  by (simp add: path_exists_def stat_def stat_upto_None)



lemma stat_upto_only_removes:
  "only_removes fs fs' \<Longrightarrow> stat_upto k fs' p = Some n \<Longrightarrow> stat_upto k fs p = Some n"
proof (induction k arbitrary: p)
  case 0
  from 0(2) have "fs' p \<noteq> None" by (auto split: option.splits)
  with 0(1) have "fs' p = fs p" unfolding only_removes_def by metis
  with 0(2) show ?case by simp
next
  case (Suc k)
  from Suc(3) have "fs' p \<noteq> None" by (auto split: option.splits)
  with Suc(2) have e: "fs' p = fs p" unfolding only_removes_def by metis
  show ?case
  proof (cases "fs p")
    case None
    with e Suc(3) show ?thesis by simp
  next
    case (Some m)
    show ?thesis
    proof (cases m)
      case (Symlink t)
      with Some e Suc(3) have "stat_upto k fs' t = Some n" by simp
      from Suc.IH [OF Suc(2) this] Some Symlink show ?thesis by simp
    qed (use Some e Suc(3) in simp_all)
  qed
qed

lemma exists_only_removes:
  "only_removes fs fs' \<Longrightarrow> path_exists fs' p \<Longrightarrow> path_exists fs p"
  unfolding path_exists_def stat_def using stat_upto_only_removes by fastforce



lemma link_removed_not_exists: "\<not> path_exists (link_removed st share) (link_path st share)"
  by (simp add: link_removed_def not_exists_None)



section \<open>Mounting\<close>




lemma replace_link_dangling:
  "path_exists fs ep \<Longrightarrow> dangling fs lnk \<Longrightarrow>
     replace_link fs lnk ep =
       (Some (FileExistsError (py_repr (str_path ep) @ '' -> '' @ py_repr (str_path lnk))), fs)"
  by (auto simp: replace_link_def dangling_def symlink_to_def split: option.splits node.splits)












text \<open>
  Claim C10, as amended. When the mount command exits with status zero, the mount point
  exists once the command completes and the link path then still holds a dangling link,
  \<^verbatim>\<open>mount_share\<close> reports failure: \<^verbatim>\<open>exists()\<close> follows the link, so the stale link is
  not removed, \<^verbatim>\<open>symlink_to\<close> raises \<^verbatim>\<open>FileExistsError\<close>, and the file system stays as
  the mount command left it, with the share mounted and the dangling link in place.
\<close>

theorem mount_share_dangling_link:
  assumes "run (mount_cmd st share) (files st) = (Returned 0 out err, fs1)"
    and "dangling fs1 (link_path st share)"
    and "path_exists fs1 (endpoint st share)"
  shows "fst (mount_share run st share) = False \<and>
         files (snd (mount_share run st share)) = fs1 \<and>
         dialogs (snd (mount_share run st share)) =
           dialogs st @ [ShowError ''Error'' (str_exn (link_exists_error st share))]"
  using assms(1) replace_link_dangling [OF assms(3,2)]
  by (simp add: mount_share_def Let_def show_dialog_def ran_def link_exists_error_def)


section \<open>The mount point\<close>

lemma split_on_none: "sep \<notin> set xs \<Longrightarrow> split_on sep xs = [xs]"
  by (induction xs) auto

lemma split_on_append:
  "sep \<notin> set xs \<Longrightarrow> split_on sep (xs @ sep # ys) = xs # split_on sep ys"
  by (induction xs) auto

lemma digit_char_plain: "d < 10 \<Longrightarrow> digit_char d \<noteq> CHR ''/'' \<and> digit_char d \<noteq> CHR ''.''"
proof -
  assume d: "d < 10"
  have a: "of_char (digit_char d) = (48 + d :: nat)"
    using d by (simp add: digit_char_def)
  show ?thesis
  proof (intro conjI notI)
    assume "digit_char d = CHR ''/''"
    then have "of_char (digit_char d) = (of_char CHR ''/'' :: nat)" by simp
    with a show False by simp
  next
    assume "digit_char d = CHR ''.''"
    then have "of_char (digit_char d) = (of_char CHR ''.'' :: nat)" by simp
    with a show False by simp
  qed
qed

lemma str_nat_plain: "c \<in> set (str_nat n) \<Longrightarrow> c \<noteq> CHR ''/'' \<and> c \<noteq> CHR ''.''"
proof (induction n rule: str_nat.induct)
  case (1 n)
  show ?case
  proof (cases "n < 10")
    case True
    with 1(2) show ?thesis by (simp add: str_nat.simps [of n] digit_char_plain)
  next
    case False
    with 1(2) have "c \<in> set (str_nat (n div 10)) \<or> c = digit_char (n mod 10)"
      by (auto simp: str_nat.simps [of n])
    with 1(1) [OF False] show ?thesis using digit_char_plain [of "n mod 10"] by auto
  qed
qed

lemma str_nat_nonempty: "str_nat n \<noteq> []"
  by (simp add: str_nat.simps [of n])

lemma str_nat_part: "str_nat n \<noteq> [] \<and> str_nat n \<noteq> ''.'' \<and> CHR ''/'' \<notin> set (str_nat n)"
proof -
  have "str_nat n \<noteq> ''.''"
    using str_nat_plain [of "CHR ''.''" n] by auto
  moreover have "CHR ''/'' \<notin> set (str_nat n)"
    using str_nat_plain [of "CHR ''/''" n] by auto
  ultimately show ?thesis using str_nat_nonempty by simp
qed

lemma parse_endpoint_text:
  assumes "CHR ''/'' \<notin> set srv" and "CHR ''/'' \<notin> set share"
  shows "parse_path (endpoint_text u srv share) =
           Path ''/'' [''run'', ''user'', str_nat u, ''gvfs'',
                       ''smb-share:server='' @ srv @ '',share='' @ share]"
proof -
  let ?last = "''smb-share:server='' @ srv @ '',share='' @ share"
  have l: "CHR ''/'' \<notin> set ?last" using assms by simp
  have t: "endpoint_text u srv share =
      [] @ CHR ''/'' # (''run'' @ CHR ''/'' # (''user'' @ CHR ''/'' # (str_nat u @ CHR ''/'' #
        (''gvfs'' @ CHR ''/'' # ?last))))"
    by (simp add: endpoint_text_def)
  have s: "split_on CHR ''/'' (endpoint_text u srv share) =
      [[], ''run'', ''user'', str_nat u, ''gvfs'', ?last]"
    unfolding t
    using str_nat_part [of u] l
    by (simp only: split_on_append split_on_none list.set empty_iff not_False_eq_True)
       (simp add: split_on_append split_on_none)
  have r: "root_of (endpoint_text u srv share) = ''/''"
    by (simp add: root_of_def endpoint_text_def)
  show ?thesis
    using str_nat_part [of u] by (simp add: parse_path_def s r)
qed

text \<open>
  Claim C9, as amended. The mount point is a total function of the user id, the server and
  the share, with no effect and no failure: for every server and share without a slash,
  the empty ones included, it is exactly the path
  \<^verbatim>\<open>/run/user/<uid>/gvfs/smb-share:server=<server>,share=<share>\<close>.
\<close>

theorem endpoint_path:
  assumes "CHR ''/'' \<notin> set (server st)" and "CHR ''/'' \<notin> set share"
  shows "str_path (endpoint st share) =
           ''/run/user/'' @ str_nat (uid st) @ ''/gvfs/smb-share:server='' @ server st @
           '',share='' @ share"
proof -
  have "endpoint st share = parse_path (endpoint_text (uid st) (server st) share)"
    by (simp add: endpoint_def endpoint_text_def)
  with parse_endpoint_text [OF assms] show ?thesis
    by (simp add: str_path_def)
qed


section \<open>Batches\<close>













section \<open>The registry\<close>













section \<open>Concrete runs\<close>

lemma split_join_ex: "split_on newline (join [newline] lines_ex) = lines_ex"
  by code_simp

lemma split_join_budget: "split_on newline (join [newline] lines_budget) = lines_budget"
  by code_simp

theorem detect_shares_names_witness:
  "listing lines_ex [''smbclient'', ''-L'', server st_ex, ''-N''] (files st_ex) =
     (Returned 0 (join [newline] lines_ex) [], files st_ex) \<and>
   fst ` set (fst (detect_shares (listing lines_ex) st_ex)) = {''photo'', ''music''}"
proof -
  have h: "listing lines_ex [''smbclient'', ''-L'', server st_ex, ''-N''] (files st_ex) =
     (Returned 0 (join [newline] lines_ex) [], files st_ex)"
    by (simp only: listing_def)
  have f: "filter listed lines_ex = [''photo Disk'', ''music Disk'']"
    by code_simp
  have w: "first_word ''photo Disk'' = ''photo''" "first_word ''music Disk'' = ''music''"
    by code_simp+
  have "fst ` set (fst (detect_shares (listing lines_ex) st_ex)) =
          first_word ` set [''photo Disk'', ''music Disk'']"
    using detect_shares_names [of "listing lines_ex" st_ex "join [newline] lines_ex" "[]" "files st_ex", OF h]
    unfolding split_join_ex f by simp
  then have c: "fst ` set (fst (detect_shares (listing lines_ex) st_ex)) = {''photo'', ''music''}"
    unfolding list.set image_insert image_empty w .
  from h c show ?thesis by (rule conjI)
qed

text \<open>
  Claim C2 as stated fails: the selection is not by type marker and name suffix: the disk share \<^verbatim>\<open>budget\<close>, whose
  comment contains a \<^verbatim>\<open>$\<close>, is an entry of type \<^verbatim>\<open>Disk\<close> with a name that does not end
  in \<^verbatim>\<open>$\<close>, and it is not discovered.
\<close>

theorem detect_shares_not_by_type_marker:
  "fst ` set (fst (detect_shares (listing lines_budget) st_ex)) \<noteq>
     set (spec_discovered (split_on newline (join [newline] lines_budget)))"
proof -
  have code: "map fst (fst (detect_shares (listing lines_budget) st_ex)) = [''photo'']"
    by code_simp
  have spec: "spec_discovered (split_on newline (join [newline] lines_budget)) = [''budget'', ''photo'']"
    by code_simp
  have "fst ` set (fst (detect_shares (listing lines_budget) st_ex)) = {''photo''}"
    using arg_cong [OF code, of set] by simp
  then show ?thesis
    unfolding spec by simp
qed

theorem detect_shares_degrades_witness:
  "(raising no_smbclient [''smbclient'', ''-L'', server st_ex, ''-N''] (files st_ex) =
      (Raised no_smbclient, files st_ex) \<and>
    fst (detect_shares (raising no_smbclient) st_ex) = default_shares st_ex \<and>
    dialogs (snd (detect_shares (raising no_smbclient) st_ex)) =
      [ShowError ''Error'' (''Error while detecting shares: '' @ str_exn no_smbclient @ [newline] @
         ''Using default shares list'')]) \<and>
   (exiting 1 ''NT_STATUS_HOST_UNREACHABLE'' [''smbclient'', ''-L'', server st_ex, ''-N''] (files st_ex) =
      (Returned 1 [] ''NT_STATUS_HOST_UNREACHABLE'', files st_ex) \<and> (1::int) \<noteq> 0 \<and>
    fst (detect_shares (exiting 1 ''NT_STATUS_HOST_UNREACHABLE'') st_ex) = default_shares st_ex \<and>
    dialogs (snd (detect_shares (exiting 1 ''NT_STATUS_HOST_UNREACHABLE'') st_ex)) =
      [ShowError ''Error'' (''Unable to list shares on lagrange:'' @ [newline] @
         ''NT_STATUS_HOST_UNREACHABLE'' @ [newline] @ ''Using default shares list'')]) \<and>
   (listing [''IPC$ IPC''] [''smbclient'', ''-L'', server st_ex, ''-N''] (files st_ex) =
      (Returned 0 ''IPC$ IPC'' [], files st_ex) \<and>
    filter listed (split_on newline ''IPC$ IPC'') = [] \<and>
    fst (detect_shares (listing [''IPC$ IPC'']) st_ex) = default_shares st_ex \<and>
    dialogs (snd (detect_shares (listing [''IPC$ IPC'']) st_ex)) =
      [ShowWarning ''Warning'' (''No shares found on lagrange'' @ [newline] @
         ''Using default shares list'')]) \<and>
   (fst (detect_shares_try (raising no_smbclient) st_ex) = Inl no_smbclient \<and>
    (\<exists>fs. raising no_smbclient [''smbclient'', ''-L'', server st_ex, ''-N''] (files st_ex) =
      (Raised no_smbclient, fs)))"
proof -
  have sv: "server st_ex = ''lagrange''" "dialogs st_ex = []"
    by (simp_all add: st_ex_def init_def)
  have h1: "raising no_smbclient [''smbclient'', ''-L'', server st_ex, ''-N''] (files st_ex) =
      (Raised no_smbclient, files st_ex)"
    by (simp add: raising_def)
  have h2: "exiting 1 ''NT_STATUS_HOST_UNREACHABLE'' [''smbclient'', ''-L'', server st_ex, ''-N''] (files st_ex) =
      (Returned 1 [] ''NT_STATUS_HOST_UNREACHABLE'', files st_ex) \<and> (1::int) \<noteq> 0"
    by (simp add: exiting_def)
  have h3: "listing [''IPC$ IPC''] [''smbclient'', ''-L'', server st_ex, ''-N''] (files st_ex) =
      (Returned 0 ''IPC$ IPC'' [], files st_ex) \<and>
    filter listed (split_on newline ''IPC$ IPC'') = []"
    by (simp add: listing_def listed_def newline_def)
  have h4: "fst (detect_shares_try (raising no_smbclient) st_ex) = Inl no_smbclient"
    by (simp add: detect_shares_try_def raising_def ran_def)
  note t1 = detect_shares_degrades [where run = "raising no_smbclient" and st = st_ex
      and e = no_smbclient and ?fs1.0 = "files st_ex"]
  note t2 = detect_shares_degrades [where run = "exiting 1 ''NT_STATUS_HOST_UNREACHABLE''" and st = st_ex
      and rc = 1 and out = "[]" and err = "''NT_STATUS_HOST_UNREACHABLE''" and ?fs1.0 = "files st_ex"]
  note t3 = detect_shares_degrades [where run = "listing [''IPC$ IPC'']" and st = st_ex
      and out = "''IPC$ IPC''" and err = "[]" and ?fs1.0 = "files st_ex"]
  have c1: "fst (detect_shares (raising no_smbclient) st_ex) = default_shares st_ex \<and>
    dialogs (snd (detect_shares (raising no_smbclient) st_ex)) =
      [ShowError ''Error'' (''Error while detecting shares: '' @ str_exn no_smbclient @ [newline] @
         ''Using default shares list'')]"
    using t1 h1 sv by simp
  have c2: "fst (detect_shares (exiting 1 ''NT_STATUS_HOST_UNREACHABLE'') st_ex) = default_shares st_ex \<and>
    dialogs (snd (detect_shares (exiting 1 ''NT_STATUS_HOST_UNREACHABLE'') st_ex)) =
      [ShowError ''Error'' (''Unable to list shares on lagrange:'' @ [newline] @
         ''NT_STATUS_HOST_UNREACHABLE'' @ [newline] @ ''Using default shares list'')]"
    using t2 h2 sv by simp
  have c3: "fst (detect_shares (listing [''IPC$ IPC'']) st_ex) = default_shares st_ex \<and>
    dialogs (snd (detect_shares (listing [''IPC$ IPC'']) st_ex)) =
      [ShowWarning ''Warning'' (''No shares found on lagrange'' @ [newline] @
         ''Using default shares list'')]"
    using t3 h3 sv by simp
  have c4: "\<exists>fs. raising no_smbclient [''smbclient'', ''-L'', server st_ex, ''-N''] (files st_ex) =
      (Raised no_smbclient, fs)"
    using t1 h4 by blast
  show ?thesis
    using h1 h2 h3 h4 c1 c2 c3 c4 by blast
qed

text \<open>
  Claim C5 as stated fails: the value returned carries no outcome. A listing command that
  cannot be run, one that exits with status 1 and one whose listing selects no share all
  return the same value, the default share dictionary, so the caller cannot tell a failed
  discovery from an empty one.
\<close>

theorem detect_shares_returns_no_outcome:
  "fst (detect_shares (raising no_smbclient) st_ex) = default_shares st_ex \<and>
   fst (detect_shares (exiting 1 ''NT_STATUS_HOST_UNREACHABLE'') st_ex) =
     fst (detect_shares (raising no_smbclient) st_ex) \<and>
   fst (detect_shares (listing [''IPC$ IPC'']) st_ex) =
     fst (detect_shares (raising no_smbclient) st_ex)"
  by code_simp



theorem mount_share_dangling_link_witness:
  "mounting ep_photo (mount_cmd (session fs_stale) ''photo'') (files (session fs_stale)) =
     (Returned 0 [] [], fs_stale(ep_photo \<mapsto> Dir)) \<and>
   dangling (fs_stale(ep_photo \<mapsto> Dir)) (link_path (session fs_stale) ''photo'') \<and>
   path_exists (fs_stale(ep_photo \<mapsto> Dir)) (endpoint (session fs_stale) ''photo'') \<and>
   fst (mount_share (mounting ep_photo) (session fs_stale) ''photo'') = False \<and>
   files (snd (mount_share (mounting ep_photo) (session fs_stale) ''photo'')) = fs_stale(ep_photo \<mapsto> Dir)"
proof -
  have f: "files (session fs_stale) = fs_stale" by (simp add: session_def init_def)
  have h1: "mounting ep_photo (mount_cmd (session fs_stale) ''photo'') (files (session fs_stale)) =
     (Returned 0 [] [], fs_stale(ep_photo \<mapsto> Dir))"
    by (simp add: mounting_def f)
  have h2: "dangling (fs_stale(ep_photo \<mapsto> Dir)) (link_path (session fs_stale) ''photo'')"
    by code_simp
  have h3: "path_exists (fs_stale(ep_photo \<mapsto> Dir)) (endpoint (session fs_stale) ''photo'')"
    by code_simp
  from mount_share_dangling_link [where run = "mounting ep_photo" and st = "session fs_stale"
      and share = "''photo''" and out = "[]" and err = "[]" and ?fs1.0 = "fs_stale(ep_photo \<mapsto> Dir)",
      OF h1 h2 h3] h1 h2 h3
  show ?thesis by simp
qed

text \<open>
  Claim C10 as stated fails: a dangling link at the link path does not by itself make \<^verbatim>\<open>mount_share\<close> fail: it
  reports success when the mount point has not appeared yet (nothing is replaced), and
  when the link pointed at the very mount point that the mount brings back (the link
  exists again and is replaced).
\<close>

theorem mount_share_dangling_link_success:
  "dangling (files (session fs_stale)) (link_path (session fs_stale) ''photo'') \<and>
   fst (exiting 0 [] (mount_cmd (session fs_stale) ''photo'') (files (session fs_stale))) =
     Returned 0 [] [] \<and>
   fst (mount_share (exiting 0 []) (session fs_stale) ''photo'') = True \<and>
   dangling (files (session fs_unmounted)) (link_path (session fs_unmounted) ''photo'') \<and>
   fst (mounting ep_photo (mount_cmd (session fs_unmounted) ''photo'')
          (files (session fs_unmounted))) = Returned 0 [] [] \<and>
   fst (mount_share (mounting ep_photo) (session fs_unmounted) ''photo'') = True"
  by code_simp

text \<open>
  Claim C4, at the input where the code fails it. The link path holds a link to a mount
  point that is gone; the mount command succeeds and the new mount point exists; the link
  is not replaced: \<^verbatim>\<open>mount_share\<close> returns \<^verbatim>\<open>False\<close> and the link still points at
  the removed mount point.
\<close>

theorem mount_share_stale_link_kept:
  "dangling (files (session fs_stale)) lnk_photo \<and>
   files (session fs_stale) lnk_photo = Some (Symlink old_endpoint) \<and>
   fst (mounting ep_photo (mount_cmd (session fs_stale) ''photo'') (files (session fs_stale))) =
     Returned 0 [] [] \<and>
   path_exists (files (snd (mount_share (mounting ep_photo) (session fs_stale) ''photo''))) ep_photo \<and>
   fst (mount_share (mounting ep_photo) (session fs_stale) ''photo'') = False \<and>
   files (snd (mount_share (mounting ep_photo) (session fs_stale) ''photo'')) lnk_photo =
     Some (Symlink old_endpoint) \<and>
   \<not> path_exists (files (snd (mount_share (mounting ep_photo) (session fs_stale) ''photo''))) old_endpoint \<and>
   link_path (session fs_stale) ''photo'' = lnk_photo \<and>
   endpoint (session fs_stale) ''photo'' = ep_photo"
  by code_simp



theorem endpoint_path_witness:
  "CHR ''/'' \<notin> set (server st_ex) \<and> CHR ''/'' \<notin> set ''photo'' \<and>
   str_path (endpoint st_ex ''photo'') = ''/run/user/1000/gvfs/smb-share:server=lagrange,share=photo''"
proof -
  have h1: "CHR ''/'' \<notin> set (server st_ex)" by (simp add: st_ex_def init_def)
  have h2: "CHR ''/'' \<notin> set ''photo''" by simp
  have v: "str_nat (uid st_ex) = ''1000''" "server st_ex = ''lagrange''" by code_simp+
  from endpoint_path [OF h1 h2] h1 h2 v show ?thesis by simp
qed

text \<open>
  Claim C9 as stated fails: an empty share name or server name is not refused: the mount point is computed as for
  any other name, and \<^verbatim>\<open>mount_share\<close> on the empty share name succeeds.
\<close>

theorem endpoint_of_empty_share:
  "str_path (endpoint st_ex []) = ''/run/user/1000/gvfs/smb-share:server=lagrange,share='' \<and>
   str_path (endpoint (st_ex\<lparr>server := []\<rparr>) ''photo'') =
     ''/run/user/1000/gvfs/smb-share:server=,share=photo'' \<and>
   fst (mount_share (mounting (endpoint st_ex [])) st_ex []) = True"
  by code_simp



text \<open>
  Claim C6, at the input where the code fails it. The registry is \<^verbatim>\<open>{A: true, B: false}\<close>
  and the server now lists \<^verbatim>\<open>A\<close> and \<^verbatim>\<open>C\<close>. \<^verbatim>\<open>refresh_shares\<close> saves the flags, replaces the
  registry by the fresh one and calls \<^verbatim>\<open>create_widgets\<close>, which raises \<^verbatim>\<open>AttributeError\<close>
  on \<^verbatim>\<open>self.unmount_all\<close>: the loop that restores the saved flags is never reached, and
  the registry is left as \<^verbatim>\<open>{A: false, C: false}\<close> although the link of \<^verbatim>\<open>A\<close> is still in
  place.
\<close>

theorem refresh_shares_drops_flags:
  "map (\<lambda>share. (share, mounted st_ab share)) [''A'', ''B'', ''C''] =
     [(''A'', Some True), (''B'', Some False), (''C'', None)] \<and>
   map fst (check_vars st_ab) = [''A'', ''B''] \<and>
   fst (refresh_shares (listing [''A Disk'', ''C Disk'']) st_ab) =
     Some (AttributeError (py_repr ''SMBMounter'' @ '' object has no attribute '' @ py_repr ''unmount_all'')) \<and>
   map (\<lambda>share. (share, mounted (snd (refresh_shares (listing [''A Disk'', ''C Disk'']) st_ab)) share))
       [''A'', ''B'', ''C''] =
     [(''A'', Some False), (''B'', None), (''C'', Some False)] \<and>
   check_vars (snd (refresh_shares (listing [''A Disk'', ''C Disk'']) st_ab)) =
     [(''A'', False), (''C'', False)] \<and>
   path_exists (files (snd (refresh_shares (listing [''A Disk'', ''C Disk'']) st_ab)))
     (link_path st_ab ''A'')"
  by code_simp


end
